theory Spec2Isabelle
  imports Main
begin

section \<open>Backend: data model\<close>

text \<open>
  The backend of the voting system is given by the Python fragments of
  \<^verbatim>\<open>manage_workflow/updated_improved_design_v2.md\<close> (reference pseudocode of
  \<^verbatim>\<open>get_token\<close> and \<^verbatim>\<open>post_vote\<close>) and of
  \<^verbatim>\<open>manage_workflow/implementation_with_claude.md\<close> (\<^verbatim>\<open>compute_fingerprint\<close>, the
  IP change detection of the vote endpoint, the token response, \<^verbatim>\<open>Settings\<close>).
  Times are seconds on the UTC clock, Python integers are \<^typ>\<open>int\<close>, strings are
  \<^typ>\<open>string\<close>.
\<close>

text \<open>Table \<^verbatim>\<open>vote_sessions\<close>: one row per fingerprint.\<close>

record vote_session =
  fingerprint :: string
  votes_used :: int
  ip_address :: "string option"
  is_suspicious :: bool

text \<open>
  What a token is bound to: the dictionary \<^verbatim>\<open>{"fp": fingerprint, "exp": expires_at}\<close>
  of the cache, and the columns of the same names that \<^verbatim>\<open>db.find_token\<close> returns.
\<close>

record token_info =
  fp :: string
  exp :: int

text \<open>
  Table \<^verbatim>\<open>votes\<close>: fingerprint and contestant, and the column \<^verbatim>\<open>ip_address\<close> that the
  token endpoint reads; a row written without an IP has \<^const>\<open>None\<close> there.
\<close>

record vote =
  vote_fingerprint :: string
  vote_contestant :: string
  vote_ip_address :: "string option"

text \<open>Table \<^verbatim>\<open>ip_change_logs\<close> (class \<^verbatim>\<open>IPChangeLog\<close>); \<^verbatim>\<open>old_ip\<close> is nullable.\<close>

record ip_change_log =
  log_fingerprint :: string
  old_ip :: "string option"
  new_ip :: string

text \<open>
  The persistent store \<^verbatim>\<open>db\<close> and the Redis \<^verbatim>\<open>cache\<close>. A cache entry carries the
  instant at which its time-to-live runs out.
\<close>

record backend =
  vote_sessions :: "string \<rightharpoonup> vote_session"
  tokens :: "(string \<times> token_info) list"
  votes :: "vote list"
  ip_change_logs :: "ip_change_log list"
  cache :: "string \<rightharpoonup> (token_info \<times> int)"

definition empty_backend :: backend where
  "empty_backend =
     \<lparr>vote_sessions = Map.empty, tokens = [], votes = [], ip_change_logs = [],
      cache = Map.empty\<rparr>"

text \<open>
  What one request reads from outside the store: the clock \<^verbatim>\<open>now_utc()\<close>, the value
  that \<^verbatim>\<open>secrets.token_hex(16)\<close> draws and the verdict of
  \<^verbatim>\<open>limiter.too_many(ip, fp)\<close>. None of the three is defined in the repository; they
  are parameters of the model, and so is the hash \<^verbatim>\<open>sha256\<close> (the hex digest of the
  encoded string), a function from strings to strings.
\<close>

record env =
  now_utc :: int
  token_hex :: string
  too_many :: "string \<Rightarrow> string \<Rightarrow> bool"

text \<open>\<^verbatim>\<open>class Settings\<close> of \<^verbatim>\<open>backend/config.py\<close>, security settings, with its defaults.\<close>

record settings =
  MAX_VOTES_PER_DEVICE :: int
  MAX_VOTES_PER_IP :: int
  MAX_IP_CHANGES_ALLOWED :: int

definition default_settings :: settings where
  "default_settings =
     \<lparr>MAX_VOTES_PER_DEVICE = 3, MAX_VOTES_PER_IP = 3, MAX_IP_CHANGES_ALLOWED = 1\<rparr>"

text \<open>
  The errors the endpoints raise, and after them the reasons of the specification's
  taxonomy that the code does not raise under the same name.
\<close>

datatype error =
    InvalidOrExpiredToken   \<comment> \<open>the failed \<^verbatim>\<open>assert\<close> of \<^verbatim>\<open>post_vote\<close>\<close>
  | HTTP429                 \<comment> \<open>rate limited\<close>
  | Duplicate
  | LimitReached
  | HTTP403                 \<comment> \<open>\<^verbatim>\<open>HTTPException(status_code=403)\<close> of the IP change detection\<close>
  | InvalidToken
  | InvalidContestant
  | DuplicateVote
  | RateLimited
  | VerificationRequired
  | SuspiciousBlocked

section \<open>Backend: persistence helpers\<close>

text \<open>
  Modelled from the spec: the helpers of \<^verbatim>\<open>db\<close> and \<^verbatim>\<open>cache\<close> that the pseudocode
  calls (\<^verbatim>\<open>find_session\<close>, \<^verbatim>\<open>create_session\<close>, \<^verbatim>\<open>save_token\<close>, \<^verbatim>\<open>find_token\<close>,
  \<^verbatim>\<open>has_voted\<close>, \<^verbatim>\<open>total_votes\<close>, \<^verbatim>\<open>insert_vote\<close>, \<^verbatim>\<open>increment_votes_used\<close>,
  \<^verbatim>\<open>cache.set\<close>, \<^verbatim>\<open>cache.get\<close>) are missing from the repository. They are the plain
  table operations their names and the data model say: a session is created with
  count 0 and suspicion false (and, \<^verbatim>\<open>create_session\<close> being given the fingerprint
  only, with no stored IP), \<^verbatim>\<open>save_token\<close> adds a row to the table \<^verbatim>\<open>tokens\<close>, a
  vote row is appended to the ledger (\<^verbatim>\<open>insert_vote\<close> being given the fingerprint and
  the contestant only, with no IP), \<^verbatim>\<open>total_votes\<close> and
  \<^verbatim>\<open>has_voted\<close> read the ledger, \<^verbatim>\<open>increment_votes_used\<close> updates the session's
  row when there is one, a cache entry is visible until its time-to-live has run out.
\<close>

definition find_session :: "backend \<Rightarrow> string \<Rightarrow> vote_session option" where
  "find_session s f = vote_sessions s f"

definition create_session :: "backend \<Rightarrow> string \<Rightarrow> backend \<times> vote_session" where
  "create_session s f =
     (let session = \<lparr>fingerprint = f, votes_used = 0, ip_address = None,
                     is_suspicious = False\<rparr>
      in (s\<lparr>vote_sessions := (vote_sessions s)(f \<mapsto> session)\<rparr>, session))"

definition save_token :: "backend \<Rightarrow> string \<Rightarrow> string \<Rightarrow> int \<Rightarrow> backend" where
  "save_token s f t e = s\<lparr>tokens := (t, \<lparr>fp = f, exp = e\<rparr>) # tokens s\<rparr>"

definition find_token :: "backend \<Rightarrow> string \<Rightarrow> token_info option" where
  "find_token s t = map_of (tokens s) t"

definition cache_set :: "backend \<Rightarrow> string \<Rightarrow> token_info \<Rightarrow> int \<Rightarrow> int \<Rightarrow> backend" where
  "cache_set s k v ttl now = s\<lparr>cache := (cache s)(k \<mapsto> (v, now + ttl))\<rparr>"

definition cache_get :: "backend \<Rightarrow> string \<Rightarrow> int \<Rightarrow> token_info option" where
  "cache_get s k now =
     (case cache s k of
        None \<Rightarrow> None
      | Some (v, dies) \<Rightarrow> if now < dies then Some v else None)"

definition has_voted :: "backend \<Rightarrow> string \<Rightarrow> string \<Rightarrow> bool" where
  "has_voted s f c =
     (filter (\<lambda>v. vote_fingerprint v = f \<and> vote_contestant v = c) (votes s) \<noteq> [])"

definition total_votes :: "backend \<Rightarrow> string \<Rightarrow> int" where
  "total_votes s f = int (length (filter (\<lambda>v. vote_fingerprint v = f) (votes s)))"

definition votes_from :: "backend \<Rightarrow> string \<Rightarrow> int" where
  \<comment> \<open>\<^verbatim>\<open>db.query(Vote).filter(Vote.ip_address == ip).count()\<close>\<close>
  "votes_from s ip = int (length (filter (\<lambda>v. vote_ip_address v = Some ip) (votes s)))"

definition insert_vote :: "backend \<Rightarrow> string \<Rightarrow> string \<Rightarrow> backend" where
  "insert_vote s f c =
     s\<lparr>votes := votes s @ [\<lparr>vote_fingerprint = f, vote_contestant = c,
                            vote_ip_address = None\<rparr>]\<rparr>"

definition increment_votes_used :: "backend \<Rightarrow> string \<Rightarrow> backend" where
  "increment_votes_used s f =
     (case vote_sessions s f of
        None \<Rightarrow> s
      | Some x \<Rightarrow> s\<lparr>vote_sessions := (vote_sessions s)(f \<mapsto> x\<lparr>votes_used := votes_used x + 1\<rparr>)\<rparr>)"

section \<open>Backend: the vote endpoint\<close>

text \<open>
  \<^verbatim>\<open>t = cache.get(f"tok:{token}") or db.find_token(token)\<close>: the cache first, the
  database when the cache has nothing.
\<close>

definition lookup_token :: "env \<Rightarrow> backend \<Rightarrow> string \<Rightarrow> token_info option" where
  "lookup_token e s token =
     (case cache_get s (''tok:'' @ token) (now_utc e) of
        Some t \<Rightarrow> Some t
      | None \<Rightarrow> find_token s token)"

text \<open>
  The condition of \<^verbatim>\<open>assert t and t["exp"] > now_utc() and t["fp"] == fingerprint\<close>.
\<close>

definition validate_token :: "env \<Rightarrow> backend \<Rightarrow> string \<Rightarrow> string \<Rightarrow> bool" where
  "validate_token e s token f =
     (case lookup_token e s token of
        None \<Rightarrow> False
      | Some t \<Rightarrow> exp t > now_utc e \<and> fp t = f)"

text \<open>
  \<^verbatim>\<open>post_vote(contestant, fingerprint, token, ip)\<close>: the basic checks, the rate limit,
  the business rules, the record. A raise leaves the store as it was.
\<close>

definition post_vote ::
  "env \<Rightarrow> backend \<Rightarrow> string \<Rightarrow> string \<Rightarrow> string \<Rightarrow> string \<Rightarrow> backend \<times> (error + string)" where
  "post_vote e s contestant f token ip =
     (if \<not> validate_token e s token f then (s, Inl InvalidOrExpiredToken)
      else if too_many e ip f then (s, Inl HTTP429)
      else if has_voted s f contestant then (s, Inl Duplicate)
      else if total_votes s f \<ge> 3 then (s, Inl LimitReached)
      else (increment_votes_used (insert_vote s f contestant) f,
            Inr (''Vote recorded for '' @ contestant @ ''!'')))"

section \<open>Backend: the fingerprint and the token endpoint\<close>

text \<open>
  \<^verbatim>\<open>compute_fingerprint(visitor_id, local_id)\<close> of \<^verbatim>\<open>backend/main.py\<close>:
  \<^verbatim>\<open>hashlib.sha256(visitor_id.encode()).hexdigest()\<close>. The first argument is the hash.
\<close>

definition compute_fingerprint :: "(string \<Rightarrow> string) \<Rightarrow> string \<Rightarrow> string \<Rightarrow> string" where
  "compute_fingerprint h visitor_id local_id = h visitor_id"

text \<open>The response model \<^verbatim>\<open>TokenResponse\<close>.\<close>

record token_response =
  resp_token :: string
  resp_fingerprint :: string
  resp_expires_at :: int
  resp_votes_used :: int
  resp_votes_used_from_ip :: int

text \<open>
  \<^verbatim>\<open>get_token(visitor_id, local_id, ip, ua)\<close> as the reference pseudocode of the design
  has it, line by line (its first line hashes \<^verbatim>\<open>f"{visitor_id}{local_id}"\<close>; the
  first argument is the hash), returning
  the \<^verbatim>\<open>TokenResponse\<close> of the implementation, which adds the two counts to the three
  fields of the pseudocode. \<^verbatim>\<open>session = db.find_session(fingerprint) or
  db.create_session(fingerprint)\<close> creates a session only when none is found.
\<close>

definition get_token ::
  "(string \<Rightarrow> string) \<Rightarrow> env \<Rightarrow> backend \<Rightarrow> string \<Rightarrow> string \<Rightarrow> string \<Rightarrow> string
     \<Rightarrow> backend \<times> token_response" where
  "get_token sha256 e s visitor_id local_id ip ua =
     (let f = sha256 (visitor_id @ local_id);
          (s1, session) = (case find_session s f of
                             Some x \<Rightarrow> (s, x)
                           | None \<Rightarrow> create_session s f);
          token = token_hex e;
          expires_at = now_utc e + 15 * 60;
          s2 = save_token s1 f token expires_at;
          s3 = cache_set s2 (''tok:'' @ token) \<lparr>fp = f, exp = expires_at\<rparr> 900 (now_utc e);
          votes_from_ip = votes_from s3 ip
      in (s3, \<lparr>resp_token = token, resp_fingerprint = f, resp_expires_at = expires_at,
               resp_votes_used = votes_used session,
               resp_votes_used_from_ip = votes_from_ip\<rparr>))"

section \<open>Backend: IP change detection\<close>

text \<open>Python's truth value of \<^verbatim>\<open>session.ip_address\<close>: \<^verbatim>\<open>None\<close> and the empty string are false.\<close>

definition truthy :: "string option \<Rightarrow> bool" where
  "truthy x = (case x of None \<Rightarrow> False | Some a \<Rightarrow> a \<noteq> [])"

definition ip_changes_of :: "ip_change_log list \<Rightarrow> string \<Rightarrow> int" where
  \<comment> \<open>\<^verbatim>\<open>db.query(IPChangeLog).filter(IPChangeLog.fingerprint == fingerprint).count()\<close>\<close>
  "ip_changes_of logs f = int (length (filter (\<lambda>l. log_fingerprint l = f) logs))"

text \<open>
  Step 4.3 of the vote endpoint, on the variables it has in scope: the settings, the
  session, the table \<^verbatim>\<open>ip_change_logs\<close>, the fingerprint and the inbound IP. It returns
  the session and the table as it leaves them, and the exception if it raises.
\<close>

definition ip_change_detection ::
  "settings \<Rightarrow> vote_session \<Rightarrow> ip_change_log list \<Rightarrow> string \<Rightarrow> string
     \<Rightarrow> (vote_session \<times> ip_change_log list) \<times> (error + unit)" where
  "ip_change_detection cfg session logs f ip =
     (if truthy (ip_address session) \<and> ip_address session \<noteq> Some ip then
        (let ip_changes = ip_changes_of logs f in
         if ip_changes \<ge> MAX_IP_CHANGES_ALLOWED cfg
         then ((session\<lparr>is_suspicious := True\<rparr>, logs), Inl HTTP403)
         else ((session,
                logs @ [\<lparr>log_fingerprint = f, old_ip = ip_address session, new_ip = ip\<rparr>]),
               Inr ()))
      else ((session, logs), Inr ()))"

text \<open>The same step on the store, for the session of the fingerprint, when there is one.\<close>

definition detect_ip_change :: "settings \<Rightarrow> backend \<Rightarrow> string \<Rightarrow> string \<Rightarrow> backend \<times> (error + unit)" where
  "detect_ip_change cfg s f ip =
     (case vote_sessions s f of
        None \<Rightarrow> (s, Inr ())
      | Some session \<Rightarrow>
          (case ip_change_detection cfg session (ip_change_logs s) f ip of
             ((session', logs'), r) \<Rightarrow>
               (s\<lparr>vote_sessions := (vote_sessions s)(f \<mapsto> session'), ip_change_logs := logs'\<rparr>, r)))"

section \<open>Backend: sequences of requests\<close>

datatype request =
    TokenRequest env string string string string
      \<comment> \<open>\<^verbatim>\<open>GET /token\<close>: visitor id, local id, ip, user agent\<close>
  | VoteRequest env string string string string
      \<comment> \<open>\<^verbatim>\<open>POST /vote\<close>: contestant, fingerprint, token, ip\<close>
  | IPCheck settings string string
      \<comment> \<open>the IP change detection for a fingerprint and an inbound ip\<close>

fun handle :: "(string \<Rightarrow> string) \<Rightarrow> backend \<Rightarrow> request \<Rightarrow> backend" where
  "handle h s (TokenRequest e v l ip ua) = fst (get_token h e s v l ip ua)"
| "handle h s (VoteRequest e c f t ip) = fst (post_vote e s c f t ip)"
| "handle h s (IPCheck cfg f ip) = fst (detect_ip_change cfg s f ip)"

text \<open>The store after a sequence of requests, handled one after the other.\<close>

definition run :: "(string \<Rightarrow> string) \<Rightarrow> backend \<Rightarrow> request list \<Rightarrow> backend" where
  "run h s rs = foldl (handle h) s rs"

text \<open>
  The token a request draws, and the current token of a fingerprint's session: the one
  that \<^verbatim>\<open>db.save_token\<close> persisted last for the fingerprint.
\<close>

fun draws :: "request \<Rightarrow> string \<Rightarrow> bool" where
  "draws (TokenRequest e v l ip ua) token = (token_hex e = token)"
| "draws (VoteRequest e c f t ip) token = False"
| "draws (IPCheck cfg f ip) token = False"

definition session_token :: "backend \<Rightarrow> string \<Rightarrow> string option" where
  "session_token s f =
     (case filter (\<lambda>row. fp (snd row) = f) (tokens s) of
        [] \<Rightarrow> None
      | row # _ \<Rightarrow> Some (fst row))"

text \<open>The suspicion flag of a fingerprint's session; false when there is no session.\<close>

definition flagged :: "backend \<Rightarrow> string \<Rightarrow> bool" where
  "flagged s f = (case vote_sessions s f of None \<Rightarrow> False | Some x \<Rightarrow> is_suspicious x)"

text \<open>The number of ledger rows of a fingerprint and a contestant.\<close>

definition votes_for :: "backend \<Rightarrow> string \<Rightarrow> string \<Rightarrow> nat" where
  "votes_for s f c =
     length (filter (\<lambda>v. vote_fingerprint v = f \<and> vote_contestant v = c) (votes s))"

section \<open>Frontend: token service and displayed count\<close>

text \<open>
  The JSON body of \<^verbatim>\<open>GET /token\<close> as \<^verbatim>\<open>fetchToken\<close> returns it: a field that is
  absent, \<^verbatim>\<open>undefined\<close> or \<^verbatim>\<open>null\<close> is \<^const>\<open>None\<close>.
\<close>

record token_data =
  td_token :: "string option"
  td_fingerprint :: "string option"
  td_expires_at :: "string option"
  td_votes_used :: "int option"
  td_votes_used_from_ip :: "int option"
  td_is_suspicious :: "bool option"

text \<open>The \<^verbatim>\<open>sessionData\<close> object that \<^verbatim>\<open>initializeToken\<close> builds and stores.\<close>

record session_data =
  sd_token :: "string option"
  sd_fingerprint :: "string option"
  sd_expires_at :: "string option"
  sd_votes_used :: int
  sd_votes_used_from_ip :: int
  sd_is_suspicious :: bool

text \<open>
  What the token service reads from outside: \<^verbatim>\<open>Date.now()\<close> in milliseconds,
  \<^verbatim>\<open>new Date(s).getTime()\<close> (\<^const>\<open>None\<close> is \<^verbatim>\<open>NaN\<close>), \<^verbatim>\<open>fetchToken\<close>, which
  returns the body or throws an \<^verbatim>\<open>Error\<close> with a message, and whether
  \<^verbatim>\<open>localStorage.setItem\<close> throws.
\<close>

record browser =
  date_now :: int
  get_time :: "string \<Rightarrow> int option"
  fetchToken :: "string \<Rightarrow> string \<Rightarrow> string + token_data"
  setItem_throws :: bool

text \<open>
  \<^verbatim>\<open>setSession(sessionData)\<close> on the stored session: the \<^verbatim>\<open>catch\<close> swallows a failing
  write, which leaves what was stored.
\<close>

definition setSession :: "browser \<Rightarrow> session_data option \<Rightarrow> session_data \<Rightarrow> session_data option" where
  "setSession b stored sessionData = (if setItem_throws b then stored else Some sessionData)"

text \<open>\<^verbatim>\<open>x || 0\<close> on a number field and \<^verbatim>\<open>x || false\<close> on a boolean field.\<close>

definition or_zero :: "int option \<Rightarrow> int" where
  "or_zero x = (case x of None \<Rightarrow> 0 | Some n \<Rightarrow> if n = 0 then 0 else n)"

definition or_false :: "bool option \<Rightarrow> bool" where
  "or_false x = (case x of None \<Rightarrow> False | Some b \<Rightarrow> b)"

text \<open>
  \<^verbatim>\<open>isTokenExpired(expiresAt)\<close>: \<^verbatim>\<open>!expiresAt\<close> holds for a missing value and for the
  empty string; a comparison with \<^verbatim>\<open>NaN\<close> is false.
\<close>

definition isTokenExpired :: "browser \<Rightarrow> string option \<Rightarrow> bool" where
  "isTokenExpired b expiresAt =
     (case expiresAt of
        None \<Rightarrow> True
      | Some x \<Rightarrow>
          if x = [] then True
          else (case get_time b x of
                  None \<Rightarrow> False
                | Some expiryTime \<Rightarrow> date_now b \<ge> expiryTime - 30000))"

text \<open>
  \<^verbatim>\<open>initializeToken\<close> and \<^verbatim>\<open>ensureValidToken\<close>, on the session that \<^verbatim>\<open>getSession\<close>
  reads from \<^verbatim>\<open>localStorage\<close> (\<^const>\<open>None\<close> is \<^verbatim>\<open>null\<close>: nothing stored, or not
  parsable). They return the stored session as they leave it, and the session they
  resolve to or the error they throw.
\<close>

definition initializeToken ::
  "browser \<Rightarrow> session_data option \<Rightarrow> string \<Rightarrow> string
     \<Rightarrow> session_data option \<times> (string + session_data)" where
  "initializeToken b stored visitorId localId =
     (case fetchToken b visitorId localId of
        Inl err \<Rightarrow> (stored, Inl err)
      | Inr tokenData \<Rightarrow>
          (let sessionData =
                 \<lparr>sd_token = td_token tokenData,
                  sd_fingerprint = td_fingerprint tokenData,
                  sd_expires_at = td_expires_at tokenData,
                  sd_votes_used = or_zero (td_votes_used tokenData),
                  sd_votes_used_from_ip = or_zero (td_votes_used_from_ip tokenData),
                  sd_is_suspicious = or_false (td_is_suspicious tokenData)\<rparr>
           in (setSession b stored sessionData, Inr sessionData)))"

definition ensureValidToken ::
  "browser \<Rightarrow> session_data option \<Rightarrow> string \<Rightarrow> string
     \<Rightarrow> session_data option \<times> (string + session_data)" where
  "ensureValidToken b stored visitorId localId =
     (case stored of
        None \<Rightarrow> initializeToken b stored visitorId localId
      | Some session \<Rightarrow>
          if isTokenExpired b (sd_expires_at session)
          then initializeToken b stored visitorId localId
          else (stored, Inr session))"

text \<open>
  The count that \<^verbatim>\<open>initializeSession\<close> of \<^verbatim>\<open>App.jsx\<close> displays:
  \<^verbatim>\<open>maxVotes - Math.max(votesUsedDevice, votesUsedIP)\<close> with \<^verbatim>\<open>maxVotes = 3\<close>.
\<close>

definition displayed_votes_remaining :: "session_data \<Rightarrow> int" where
  "displayed_votes_remaining tokenData =
     (let votesUsedDevice = or_zero (Some (sd_votes_used tokenData));
          votesUsedIP = or_zero (Some (sd_votes_used_from_ip tokenData));
          maxVotes = 3;
          actualVotesUsed = max votesUsedDevice votesUsedIP
      in maxVotes - actualVotesUsed)"

text \<open>
  The formula of the specification, in its words:
  \<^verbatim>\<open>votes_remaining = min(deviceCap - deviceVotes, ipCap - ipVotes)\<close>.
\<close>

definition spec_votes_remaining :: "int \<Rightarrow> int \<Rightarrow> int \<Rightarrow> int \<Rightarrow> int" where
  "spec_votes_remaining deviceCap ipCap deviceVotes ipVotes =
     min (deviceCap - deviceVotes) (ipCap - ipVotes)"

section \<open>The core as the specification describes it\<close>

text \<open>
  Of the backend, \<^verbatim>\<open>src/\<close> holds the fragments modelled above. The vote endpoint with
  its ceiling per IP, the rate limiter and the verification of a flagged session are
  in \<^verbatim>\<open>backend/main.py\<close>, \<^verbatim>\<open>backend/redis_client.py\<close> and
  \<^verbatim>\<open>backend/captcha_service.py\<close>, which are not under \<^verbatim>\<open>src/\<close>. This section models
  these operations from the specification (sections 3 and 4), for the properties that
  rest on them.
\<close>

text \<open>
  Modelled from the spec: the Session record of the missing \<^verbatim>\<open>backend/database.py\<close>
  (section 3: current token, token expiry, last-seen IP, suspicion flag, cached vote
  count; the fingerprint is the key it is stored under).
\<close>

record core_session =
  cs_token :: string
  cs_expiry :: int
  cs_ip :: string
  cs_suspicious :: bool
  cs_vote_count :: int

text \<open>
  Modelled from the spec: the Vote row of the missing ledger (section 3: fingerprint,
  normalized contestant, IP, verification method, timestamp).
\<close>

record core_vote =
  cv_fingerprint :: string
  cv_contestant :: string
  cv_ip :: string
  cv_verified :: bool
  cv_time :: int

text \<open>
  Modelled from the spec: the IPChangeRecord row (section 3: fingerprint, old IP, new
  IP, timestamp).
\<close>

record ip_change_record =
  icr_fingerprint :: string
  icr_old :: string
  icr_new :: string
  icr_time :: int

text \<open>
  Modelled from the spec: the state of the missing core. Sessions by fingerprint, the
  append-only ledger, the IP change records, the requests of the rate-limit windows
  (key and time), the rate-limit violations counted per fingerprint, and the proofs
  already used (section 4.5: each verified proof is single-use).
\<close>

record core =
  core_sessions :: "string \<rightharpoonup> core_session"
  core_ledger :: "core_vote list"
  core_ip_changes :: "ip_change_record list"
  core_hits :: "(string \<times> int) list"
  core_violations :: "string \<Rightarrow> nat"
  core_used_proofs :: "string list"

definition empty_core :: core where
  "empty_core =
     \<lparr>core_sessions = Map.empty, core_ledger = [], core_ip_changes = [], core_hits = [],
      core_violations = (\<lambda>f. 0), core_used_proofs = []\<rparr>"

text \<open>
  Modelled from the spec: the configuration of the missing core. The three limits of
  \<^verbatim>\<open>Settings\<close>, the configured eligible set (of normalized names), the token TTL,
  the window and the threshold of the rate limiter (section 4.6), and two things the
  specification leaves to others: the external verification collaborator
  (\<open>verify(proof)\<close>, section 4.5) and what counts as an abnormally rapid vote cadence
  (section 4.4), a predicate on the times of a fingerprint's votes.
\<close>

record core_config =
  limits :: settings
  eligible :: "string list"
  token_ttl :: int
  rate_window :: int
  rate_threshold :: nat
  verify :: "string \<Rightarrow> bool"
  rapid_cadence :: "int list \<Rightarrow> bool"

text \<open>
  Modelled from the spec: the normalization of a contestant, which no file under
  \<^verbatim>\<open>src/\<close> performs (section 4.3, step 2: trim, case-fold).
\<close>

definition is_space :: "char \<Rightarrow> bool" where
  "is_space c = (c = CHR '' '' \<or> c = CHR 0x09 \<or> c = CHR 0x0A \<or> c = CHR 0x0D)"

definition trim :: "string \<Rightarrow> string" where
  "trim x = rev (dropWhile is_space (rev (dropWhile is_space x)))"

definition case_fold_char :: "char \<Rightarrow> char" where
  "case_fold_char c =
     (case map_of (zip ''ABCDEFGHIJKLMNOPQRSTUVWXYZ'' ''abcdefghijklmnopqrstuvwxyz'') c of
        None \<Rightarrow> c
      | Some d \<Rightarrow> d)"

definition normalize_contestant :: "string \<Rightarrow> string" where
  "normalize_contestant x = map case_fold_char (trim x)"

text \<open>
  Modelled from the spec: what \<open>obtainSession\<close> returns (section 4.2: token,
  fingerprint, expiry, votesUsedByDevice, votesUsedByIp, isSuspicious).
\<close>

record session_view =
  sv_token :: string
  sv_fingerprint :: string
  sv_expiry :: int
  sv_votesUsedByDevice :: int
  sv_votesUsedByIp :: int
  sv_isSuspicious :: bool

text \<open>
  Modelled from the spec: the counts of the ledger, \<open>count(Vote, fingerprint)\<close> and
  \<open>count(Vote, ip)\<close> (section 3), whether a Vote exists for a fingerprint and a
  contestant, and the suspicion flag of a fingerprint's session.
\<close>

definition device_votes :: "core \<Rightarrow> string \<Rightarrow> int" where
  "device_votes st f = int (length (filter (\<lambda>v. cv_fingerprint v = f) (core_ledger st)))"

definition ip_votes :: "core \<Rightarrow> string \<Rightarrow> int" where
  "ip_votes st ip = int (length (filter (\<lambda>v. cv_ip v = ip) (core_ledger st)))"

definition voted :: "core \<Rightarrow> string \<Rightarrow> string \<Rightarrow> bool" where
  "voted st f c =
     (filter (\<lambda>v. cv_fingerprint v = f \<and> cv_contestant v = c) (core_ledger st) \<noteq> [])"

definition suspicious :: "core \<Rightarrow> string \<Rightarrow> bool" where
  "suspicious st f = (case core_sessions st f of None \<Rightarrow> False | Some x \<Rightarrow> cs_suspicious x)"

text \<open>
  Modelled from the spec: the write of the missing Suspicion Engine (section 5:
  suspicion flag writes are idempotent set-once, a logical OR into true).
\<close>

definition raise_suspicion :: "core \<Rightarrow> string \<Rightarrow> core" where
  "raise_suspicion st f =
     (case core_sessions st f of
        None \<Rightarrow> st
      | Some x \<Rightarrow> st\<lparr>core_sessions := (core_sessions st)(f \<mapsto> x\<lparr>cs_suspicious := True\<rparr>)\<rparr>)"

text \<open>
  Modelled from the spec: \<open>validateToken(token, fingerprint)\<close> of the missing
  Session/Token Manager (section 3: a token is valid only if it equals Session.token,
  is unexpired, and its bound fingerprint matches the request's fingerprint).
\<close>

definition validateToken :: "int \<Rightarrow> core \<Rightarrow> string \<Rightarrow> string \<Rightarrow> bool" where
  "validateToken now st token f =
     (case core_sessions st f of
        None \<Rightarrow> False
      | Some x \<Rightarrow> cs_token x = token \<and> now < cs_expiry x)"

text \<open>
  Modelled from the spec: the IP Mobility Tracker (section 4.4). On a touch where the
  inbound IP differs from the stored one it appends an IPChangeRecord(old, new), swaps
  the stored IP (section 5), recomputes the distinct-transition count of the
  fingerprint and sets the flag if the count exceeds \<open>MAX_IP_CHANGES_ALLOWED\<close>.
\<close>

definition distinct_transitions :: "core \<Rightarrow> string \<Rightarrow> int" where
  "distinct_transitions st f =
     int (length (remdups (map (\<lambda>r. (icr_old r, icr_new r))
       (filter (\<lambda>r. icr_fingerprint r = f) (core_ip_changes st)))))"

definition track_ip :: "core_config \<Rightarrow> int \<Rightarrow> core \<Rightarrow> string \<Rightarrow> string \<Rightarrow> core" where
  "track_ip cfg now st f ip =
     (case core_sessions st f of
        None \<Rightarrow> st
      | Some x \<Rightarrow>
          if cs_ip x = ip then st
          else
            (let st1 = st\<lparr>core_ip_changes := core_ip_changes st @
                            [\<lparr>icr_fingerprint = f, icr_old = cs_ip x, icr_new = ip,
                              icr_time = now\<rparr>],
                          core_sessions := (core_sessions st)(f \<mapsto> x\<lparr>cs_ip := ip\<rparr>)\<rparr>
             in if MAX_IP_CHANGES_ALLOWED (limits cfg) < distinct_transitions st1 f
                then raise_suspicion st1 f else st1))"

text \<open>
  Modelled from the spec: the Rate Limiter of the missing \<^verbatim>\<open>backend/redis_client.py\<close>
  (section 4.6). Sliding-window counters keyed independently by IP and by fingerprint;
  requests older than the window expire; exceeding the threshold yields
  \<open>RateLimited\<close> (the second component) and, on repetition (the second violation of
  the fingerprint), sets the flag.
\<close>

definition requests_in_window :: "core_config \<Rightarrow> int \<Rightarrow> core \<Rightarrow> string \<Rightarrow> nat" where
  "requests_in_window cfg now st k =
     length (filter (\<lambda>h. fst h = k \<and> now - rate_window cfg < snd h) (core_hits st))"

definition rate_limiter :: "core_config \<Rightarrow> int \<Rightarrow> core \<Rightarrow> string \<Rightarrow> string \<Rightarrow> core \<times> bool" where
  "rate_limiter cfg now st ip f =
     (let st1 = st\<lparr>core_hits := (''ip:'' @ ip, now) # (''fp:'' @ f, now) #
                    filter (\<lambda>h. now - rate_window cfg < snd h) (core_hits st)\<rparr>
      in if rate_threshold cfg < requests_in_window cfg now st1 (''ip:'' @ ip) \<or>
            rate_threshold cfg < requests_in_window cfg now st1 (''fp:'' @ f)
         then
           (let st2 = st1\<lparr>core_violations :=
                         (core_violations st1)(f := Suc (core_violations st1 f))\<rparr>
            in (if 2 \<le> core_violations st2 f then raise_suspicion st2 f else st2, True))
         else (st1, False))"

text \<open>
  Modelled from the spec: the Verification Gate of the missing
  \<^verbatim>\<open>backend/captcha_service.py\<close> (section 4.3, step 7, and section 4.5). A session
  that is not flagged passes. A flagged one is blocked outright when its suspicion
  stems from repeated hard violations (here: the repeated rate-limit violations);
  otherwise it needs a proof that the collaborator verifies and that has not been
  used, which is then used up; a missing, invalid or replayed proof gives
  \<open>VerificationRequired\<close>. The gate never writes the flag. On a pass it returns the
  state and whether a proof was used.
\<close>

definition verification_gate ::
  "core_config \<Rightarrow> core \<Rightarrow> string \<Rightarrow> string option \<Rightarrow> error + (core \<times> bool)" where
  "verification_gate cfg st f verificationProof =
     (if \<not> suspicious st f then Inr (st, False)
      else if 2 \<le> core_violations st f then Inl SuspiciousBlocked
      else
        (case verificationProof of
           None \<Rightarrow> Inl VerificationRequired
         | Some p \<Rightarrow>
             if p \<in> set (core_used_proofs st) \<or> \<not> verify cfg p then Inl VerificationRequired
             else Inr (st\<lparr>core_used_proofs := p # core_used_proofs st\<rparr>, True)))"

text \<open>
  Modelled from the spec: the commit of an accepted vote (section 4.3, step 8: append
  Vote, increment Session.vote_count), after which an abnormally rapid cadence of the
  fingerprint's votes sets the flag (section 4.4).
\<close>

definition commit_vote ::
  "core_config \<Rightarrow> int \<Rightarrow> core \<Rightarrow> string \<Rightarrow> string \<Rightarrow> string \<Rightarrow> bool \<Rightarrow> core" where
  "commit_vote cfg now st f c ip verified =
     (let st1 = st\<lparr>core_ledger := core_ledger st @
                    [\<lparr>cv_fingerprint = f, cv_contestant = c, cv_ip = ip,
                      cv_verified = verified, cv_time = now\<rparr>]\<rparr>;
          st2 = (case core_sessions st1 f of
                   None \<Rightarrow> st1
                 | Some x \<Rightarrow>
                     st1\<lparr>core_sessions :=
                       (core_sessions st1)(f \<mapsto> x\<lparr>cs_vote_count := cs_vote_count x + 1\<rparr>)\<rparr>)
      in if rapid_cadence cfg
              (map cv_time (filter (\<lambda>v. cv_fingerprint v = f) (core_ledger st2)))
         then raise_suspicion st2 f else st2)"

text \<open>
  Modelled from the spec: \<open>submitVote(fingerprint, contestant, ip, token,
  verificationProof)\<close> of the missing Limit Enforcer, with the ordered checks of
  section 4.3: token validity (\<open>InvalidToken\<close>), normalized contestant in the eligible
  set (\<open>InvalidContestant\<close>), no existing Vote for the pair (\<open>DuplicateVote\<close>),
  \<open>count(Vote, fingerprint) < MAX_VOTES_PER_DEVICE\<close> and \<open>count(Vote, ip) <
  MAX_VOTES_PER_IP\<close> (\<open>LimitReached\<close>), the rate limiter (\<open>RateLimited\<close>), the
  verification of a flagged session; on pass the commit, and
  \<open>votes_remaining = min(deviceCap - deviceVotes, ipCap - ipVotes)\<close>.
\<close>

definition submitVote ::
  "core_config \<Rightarrow> int \<Rightarrow> core \<Rightarrow> string \<Rightarrow> string \<Rightarrow> string \<Rightarrow> string \<Rightarrow> string option
     \<Rightarrow> core \<times> (error + int)" where
  "submitVote cfg now st f contestant ip token verificationProof =
     (if \<not> validateToken now st token f then (st, Inl InvalidToken)
      else if normalize_contestant contestant \<notin> set (eligible cfg) then (st, Inl InvalidContestant)
      else if voted st f (normalize_contestant contestant) then (st, Inl DuplicateVote)
      else if \<not> device_votes st f < MAX_VOTES_PER_DEVICE (limits cfg) then (st, Inl LimitReached)
      else if \<not> ip_votes st ip < MAX_VOTES_PER_IP (limits cfg) then (st, Inl LimitReached)
      else
        (case rate_limiter cfg now st ip f of
           (st1, limited) \<Rightarrow>
             if limited then (st1, Inl RateLimited)
             else
               (case verification_gate cfg st1 f verificationProof of
                  Inl e \<Rightarrow> (st1, Inl e)
                | Inr (st2, verified) \<Rightarrow>
                    (let st3 = commit_vote cfg now st2 f (normalize_contestant contestant) ip verified
                     in (st3, Inr (min (MAX_VOTES_PER_DEVICE (limits cfg) - device_votes st3 f)
                                       (MAX_VOTES_PER_IP (limits cfg) - ip_votes st3 ip)))))))"

text \<open>
  Modelled from the spec: \<open>obtainSession(fingerprint, ip)\<close> of the missing
  Session/Token Manager (section 4.2). No session: create one (count 0, suspicion
  false, IP = ip). Existing session: rotate the token if it has expired (new random
  token, fresh TTL, counts and suspicion untouched), and track the IP if it differs
  from the stored one. The counts returned are read from the ledger. The third
  argument is the random token drawn.
\<close>

definition obtainSession ::
  "core_config \<Rightarrow> int \<Rightarrow> string \<Rightarrow> core \<Rightarrow> string \<Rightarrow> string \<Rightarrow> core \<times> session_view option" where
  "obtainSession cfg now fresh st f ip =
     (let st1 =
            (case core_sessions st f of
               None \<Rightarrow>
                 st\<lparr>core_sessions := (core_sessions st)(f \<mapsto>
                      \<lparr>cs_token = fresh, cs_expiry = now + token_ttl cfg, cs_ip = ip,
                       cs_suspicious = False, cs_vote_count = 0\<rparr>)\<rparr>
             | Some x \<Rightarrow>
                 track_ip cfg now
                   (if cs_expiry x \<le> now
                    then st\<lparr>core_sessions := (core_sessions st)(f \<mapsto>
                           x\<lparr>cs_token := fresh, cs_expiry := now + token_ttl cfg\<rparr>)\<rparr>
                    else st) f ip)
      in (st1,
          case core_sessions st1 f of
            None \<Rightarrow> None
          | Some x \<Rightarrow>
              Some \<lparr>sv_token = cs_token x, sv_fingerprint = f, sv_expiry = cs_expiry x,
                    sv_votesUsedByDevice = device_votes st1 f,
                    sv_votesUsedByIp = ip_votes st1 ip,
                    sv_isSuspicious = cs_suspicious x\<rparr>))"

text \<open>
  Modelled from the spec: the five operations of the core that the specification
  names (\<open>obtainSession\<close>, \<open>submitVote\<close>, IP-mobility tracking, rate limiting,
  verification) as steps on its state, and a sequence of them.
\<close>

datatype core_op =
    ObtainSession int string string string
  | SubmitVote int string string string string "string option"
  | TrackIP int string string
  | RateLimit int string string
  | Verify string "string option"

fun core_step :: "core_config \<Rightarrow> core \<Rightarrow> core_op \<Rightarrow> core" where
  "core_step cfg st (ObtainSession now fresh f ip) = fst (obtainSession cfg now fresh st f ip)"
| "core_step cfg st (SubmitVote now f c ip token verificationProof) =
     fst (submitVote cfg now st f c ip token verificationProof)"
| "core_step cfg st (TrackIP now f ip) = track_ip cfg now st f ip"
| "core_step cfg st (RateLimit now ip f) = fst (rate_limiter cfg now st ip f)"
| "core_step cfg st (Verify f verificationProof) =
     (case verification_gate cfg st f verificationProof of Inl e \<Rightarrow> st | Inr (st', verified) \<Rightarrow> st')"

definition core_run :: "core_config \<Rightarrow> core \<Rightarrow> core_op list \<Rightarrow> core" where
  "core_run cfg st ops = foldl (core_step cfg) st ops"

section \<open>Scenarios\<close>

text \<open>
  Concrete requests for the scenarios below. \<open>never\<close> and \<open>always\<close> are the two
  constant verdicts of the rate limiter; \<open>tag_hash\<close> stands in for the hash where a
  scenario has to run \<^const>\<open>get_token\<close> (no result below depends on which function
  the hash is).
\<close>

definition never :: "string \<Rightarrow> string \<Rightarrow> bool" where
  "never ip f = False"

definition always :: "string \<Rightarrow> string \<Rightarrow> bool" where
  "always ip f = True"

definition tag_hash :: "string \<Rightarrow> string" where
  "tag_hash x = ''sha256:'' @ x"

text \<open>A first browser obtains a token from 1.1.1.1 and votes for Smith.\<close>

definition first_vote_requests :: "request list" where
  "first_vote_requests =
     [TokenRequest \<lparr>now_utc = 0, token_hex = ''tok1'', too_many = never\<rparr>
        ''chrome'' ''id1'' ''1.1.1.1'' ''ua'',
      VoteRequest \<lparr>now_utc = 10, token_hex = [], too_many = never\<rparr>
        ''Smith'' ''sha256:chromeid1'' ''tok1'' ''1.1.1.1'']"

text \<open>The same browser asks for a token twice, a minute apart.\<close>

definition two_token_requests :: "request list" where
  "two_token_requests =
     [TokenRequest \<lparr>now_utc = 0, token_hex = ''tok1'', too_many = never\<rparr>
        ''chrome'' ''id1'' ''1.1.1.1'' ''ua'',
      TokenRequest \<lparr>now_utc = 60, token_hex = ''tok2'', too_many = never\<rparr>
        ''chrome'' ''id1'' ''1.1.1.1'' ''ua'']"

text \<open>A session last seen on 2.2.2.2, and the one IP change logged for it so far.\<close>

definition moved_session :: vote_session where
  "moved_session =
     \<lparr>fingerprint = ''fp1'', votes_used = 0, ip_address = Some ''2.2.2.2'',
      is_suspicious = False\<rparr>"

definition moved_logs :: "ip_change_log list" where
  "moved_logs =
     [\<lparr>log_fingerprint = ''fp1'', old_ip = Some ''1.1.1.1'', new_ip = ''2.2.2.2''\<rparr>]"

text \<open>
  A store whose only session is flagged, and requests that touch this session: a token
  request, a vote that is recorded, two IP changes (the second over the limit) and a
  vote that is rate-limited.
\<close>

definition flagged_backend :: backend where
  "flagged_backend =
     empty_backend\<lparr>vote_sessions :=
       [''sha256:chromeid1'' \<mapsto>
          \<lparr>fingerprint = ''sha256:chromeid1'', votes_used = 0,
           ip_address = Some ''3.3.3.3'', is_suspicious = True\<rparr>]\<rparr>"

definition flagged_requests :: "request list" where
  "flagged_requests =
     [TokenRequest \<lparr>now_utc = 0, token_hex = ''tok1'', too_many = never\<rparr>
        ''chrome'' ''id1'' ''4.4.4.4'' ''ua'',
      VoteRequest \<lparr>now_utc = 10, token_hex = [], too_many = never\<rparr>
        ''Smith'' ''sha256:chromeid1'' ''tok1'' ''4.4.4.4'',
      IPCheck default_settings ''sha256:chromeid1'' ''4.4.4.4'',
      IPCheck default_settings ''sha256:chromeid1'' ''5.5.5.5'',
      VoteRequest \<lparr>now_utc = 20, token_hex = [], too_many = always\<rparr>
        ''Jones'' ''sha256:chromeid1'' ''tok1'' ''5.5.5.5'']"

text \<open>
  A browser at 12:00:00 (in milliseconds) whose date parser knows two timestamps,
  12:00:20 and 12:10:00, whose \<^verbatim>\<open>fetchToken\<close> answers with a token that expires at
  12:15:00, and whose storage takes the write. A second browser differs in its
  \<^verbatim>\<open>fetchToken\<close>, which answers with a token that expires at 12:00:20.
\<close>

definition noon_get_time :: "string \<Rightarrow> int option" where
  "noon_get_time x =
     (if x = ''2025-11-05T12:00:20'' then Some 43220000
      else if x = ''2025-11-05T12:10:00'' then Some 43800000
      else None)"

definition noon_fetchToken :: "string \<Rightarrow> string \<Rightarrow> string + token_data" where
  "noon_fetchToken visitorId localId =
     Inr \<lparr>td_token = Some ''tok9'', td_fingerprint = Some ''fp1'',
          td_expires_at = Some ''2025-11-05T12:15:00'', td_votes_used = Some 1,
          td_votes_used_from_ip = None, td_is_suspicious = None\<rparr>"

definition noon_browser :: browser where
  "noon_browser =
     \<lparr>date_now = 43200000, get_time = noon_get_time, fetchToken = noon_fetchToken,
      setItem_throws = False\<rparr>"

definition late_fetchToken :: "string \<Rightarrow> string \<Rightarrow> string + token_data" where
  "late_fetchToken visitorId localId =
     Inr \<lparr>td_token = Some ''tok9'', td_fingerprint = Some ''fp1'',
          td_expires_at = Some ''2025-11-05T12:00:20'', td_votes_used = Some 1,
          td_votes_used_from_ip = None, td_is_suspicious = None\<rparr>"

definition late_browser :: browser where
  "late_browser =
     \<lparr>date_now = 43200000, get_time = noon_get_time, fetchToken = late_fetchToken,
      setItem_throws = False\<rparr>"

definition stale_session :: session_data where
  "stale_session =
     \<lparr>sd_token = Some ''tok1'', sd_fingerprint = Some ''fp1'',
      sd_expires_at = Some ''2025-11-05T12:00:20'', sd_votes_used = 1,
      sd_votes_used_from_ip = 2, sd_is_suspicious = False\<rparr>"

text \<open>
  A configuration of the modelled core: the default limits, the ten contestants, a
  collaborator that verifies the one proof \<open>human\<close>, and no cadence that counts as
  abnormal.
\<close>

definition accept_human :: "string \<Rightarrow> bool" where
  "accept_human p = (p = ''human'')"

definition steady :: "int list \<Rightarrow> bool" where
  "steady ts = False"

definition demo_config :: core_config where
  "demo_config =
     \<lparr>limits = default_settings,
      eligible = [''jones'', ''smith'', ''johnson'', ''williams'', ''brown'', ''davis'',
                  ''miller'', ''wilson'', ''moore'', ''taylor''],
      token_ttl = 900, rate_window = 60, rate_threshold = 5,
      verify = accept_human, rapid_cadence = steady\<rparr>"

text \<open>
  On the modelled core: a first fingerprint casts three votes from 1.1.1.1 and a second
  one obtains a session from the same IP; a fingerprint changes its IP twice; and
  operations on its session, flagged by then: a token rotation, a vote without a
  proof, a vote with a proof, a replay of the proof, a rate-limit check and a third
  IP change.
\<close>

definition three_votes_ops :: "core_op list" where
  "three_votes_ops =
     [ObtainSession 0 ''tok1'' ''fp1'' ''1.1.1.1'',
      SubmitVote 10 ''fp1'' ''Smith'' ''1.1.1.1'' ''tok1'' None,
      SubmitVote 20 ''fp1'' ''Jones'' ''1.1.1.1'' ''tok1'' None,
      SubmitVote 30 ''fp1'' '' williams '' ''1.1.1.1'' ''tok1'' None,
      ObtainSession 40 ''tok2'' ''fp2'' ''1.1.1.1'']"

definition roaming_ops :: "core_op list" where
  "roaming_ops =
     [ObtainSession 0 ''tok1'' ''fp1'' ''1.1.1.1'',
      TrackIP 5 ''fp1'' ''2.2.2.2'',
      TrackIP 6 ''fp1'' ''3.3.3.3'']"

definition flagged_ops :: "core_op list" where
  "flagged_ops =
     [ObtainSession 1000 ''tok3'' ''fp1'' ''3.3.3.3'',
      SubmitVote 1010 ''fp1'' ''Smith'' ''3.3.3.3'' ''tok3'' None,
      SubmitVote 1020 ''fp1'' ''Smith'' ''3.3.3.3'' ''tok3'' (Some ''human''),
      Verify ''fp1'' (Some ''human''),
      RateLimit 1040 ''3.3.3.3'' ''fp1'',
      TrackIP 1050 ''fp1'' ''4.4.4.4'']"

section \<open>Lemmas on the store\<close>

lemmas backend_defs =
  run_def get_token_def post_vote_def validate_token_def lookup_token_def cache_get_def
  cache_set_def find_token_def find_session_def create_session_def save_token_def
  has_voted_def total_votes_def votes_from_def votes_for_def insert_vote_def
  increment_votes_used_def empty_backend_def never_def always_def tag_hash_def
  first_vote_requests_def two_token_requests_def Let_def

text \<open>A request leaves the ledger alone or appends one row that passed both business rules.\<close>

lemma votes_handle:
  "votes (handle h s r) = votes s \<or>
   (\<exists>f c. \<not> has_voted s f c \<and> total_votes s f < 3 \<and>
      votes (handle h s r) =
        votes s @ [\<lparr>vote_fingerprint = f, vote_contestant = c, vote_ip_address = None\<rparr>])"
proof (cases r)
  case (TokenRequest e v l ip ua)
  then show ?thesis
    by (simp add: get_token_def Let_def cache_set_def save_token_def create_session_def
        split: option.splits prod.splits)
next
  case (VoteRequest e c f t ip)
  then show ?thesis
    by (auto simp add: post_vote_def increment_votes_used_def insert_vote_def
        split: option.splits)
next
  case (IPCheck cfg f ip)
  then show ?thesis
    by (simp add: detect_ip_change_def split: option.splits prod.splits)
qed

lemma handle_device_cap:
  assumes "\<forall>f. total_votes s f \<le> 3"
  shows "total_votes (handle h s r) f \<le> 3"
  using votes_handle [of h s r] assms
  by (auto simp: total_votes_def)

lemma handle_one_vote_per_pair:
  assumes "\<forall>f c. votes_for s f c \<le> 1"
  shows "votes_for (handle h s r) f c \<le> 1"
  using votes_handle [of h s r] assms
  by (auto simp: votes_for_def has_voted_def)

text \<open>
  The device ceiling of \<^const>\<open>post_vote\<close>: no sequence of requests brings a
  fingerprint above three ledger rows.
\<close>

lemma run_device_cap:
  "\<forall>f. total_votes s f \<le> 3 \<Longrightarrow> total_votes (run h s rs) f \<le> 3"
  unfolding run_def
proof (induction rs arbitrary: s f)
  case Nil
  then show ?case by simp
next
  case (Cons r rs)
  have "\<forall>f. total_votes (handle h s r) f \<le> 3"
    using handle_device_cap [OF Cons.prems] by blast
  then show ?case using Cons.IH by simp
qed

lemma run_one_vote_per_pair:
  "\<forall>f c. votes_for s f c \<le> 1 \<Longrightarrow> votes_for (run h s rs) f c \<le> 1"
  unfolding run_def
proof (induction rs arbitrary: s f c)
  case Nil
  then show ?case by simp
next
  case (Cons r rs)
  have "\<forall>f c. votes_for (handle h s r) f c \<le> 1"
    using handle_one_vote_per_pair [OF Cons.prems] by blast
  then show ?case using Cons.IH by simp
qed

lemma handle_flagged: "flagged s f \<Longrightarrow> flagged (handle h s r) f"
proof (cases r)
  case (TokenRequest e v l ip ua)
  assume "flagged s f"
  then show ?thesis using TokenRequest
    by (auto simp add: flagged_def get_token_def Let_def cache_set_def save_token_def
        create_session_def find_session_def split: option.splits prod.splits)
next
  case (VoteRequest e c f' t ip)
  assume "flagged s f"
  then show ?thesis using VoteRequest
    by (auto simp add: flagged_def post_vote_def increment_votes_used_def insert_vote_def
        split: option.splits)
next
  case (IPCheck cfg f' ip)
  assume "flagged s f"
  then show ?thesis using IPCheck
    by (auto simp add: flagged_def detect_ip_change_def ip_change_detection_def Let_def
        split: option.splits prod.splits if_splits)
qed

text \<open>What \<^const>\<open>get_token\<close> answers, and what it stores for the token it issued.\<close>

lemma get_token_response:
  "resp_token (snd (get_token h e s v l ip ua)) = token_hex e"
  "resp_expires_at (snd (get_token h e s v l ip ua)) = now_utc e + 900"
  "resp_fingerprint (snd (get_token h e s v l ip ua)) = h (v @ l)"
  "resp_votes_used_from_ip (snd (get_token h e s v l ip ua)) = votes_from s ip"
  "votes (fst (get_token h e s v l ip ua)) = votes s"
  by (simp_all add: get_token_def Let_def votes_from_def cache_set_def save_token_def
      create_session_def split: option.splits prod.splits)

lemma lookup_issued:
  "lookup_token e (fst (get_token h e0 s v l ip ua)) (token_hex e0) =
     Some \<lparr>fp = h (v @ l), exp = now_utc e0 + 900\<rparr>"
  by (simp add: get_token_def Let_def lookup_token_def cache_get_def cache_set_def
      save_token_def find_token_def create_session_def split: option.splits prod.splits)

text \<open>A request that draws another token leaves what the lookup finds for a token.\<close>

lemma lookup_handle:
  "\<not> draws r token \<Longrightarrow> lookup_token e (handle h s r) token = lookup_token e s token"
proof (cases r)
  case (TokenRequest e0 v l ip ua)
  assume "\<not> draws r token"
  then show ?thesis using TokenRequest
    by (auto simp add: get_token_def Let_def lookup_token_def cache_get_def cache_set_def
        save_token_def find_token_def create_session_def split: option.splits prod.splits)
next
  case (VoteRequest e0 c f t ip)
  then show ?thesis
    by (simp add: post_vote_def lookup_token_def cache_get_def find_token_def
        increment_votes_used_def insert_vote_def split: option.splits)
next
  case (IPCheck cfg f ip)
  then show ?thesis
    by (simp add: detect_ip_change_def lookup_token_def cache_get_def find_token_def
        split: option.splits prod.splits)
qed

lemma lookup_run:
  "\<forall>r \<in> set rs. \<not> draws r token \<Longrightarrow>
     lookup_token e (run h s rs) token = lookup_token e s token"
  unfolding run_def
  by (induction rs arbitrary: s) (simp_all add: lookup_handle)

section \<open>Lemmas on the modelled core\<close>

lemmas core_defs = raise_suspicion_def track_ip_def rate_limiter_def verification_gate_def
  commit_vote_def submitVote_def obtainSession_def Let_def

lemmas core_eval = core_run_def core_defs demo_config_def default_settings_def empty_core_def
  three_votes_ops_def roaming_ops_def flagged_ops_def accept_human_def steady_def
  validateToken_def device_votes_def ip_votes_def voted_def suspicious_def
  normalize_contestant_def trim_def is_space_def case_fold_char_def requests_in_window_def
  distinct_transitions_def











lemma suspicious_raise: "suspicious st f \<Longrightarrow> suspicious (raise_suspicion st g) f"
  by (auto simp add: suspicious_def raise_suspicion_def split: option.splits)

lemma suspicious_track: "suspicious st f \<Longrightarrow> suspicious (track_ip cfg now st g ip) f"
  by (auto simp add: suspicious_def track_ip_def raise_suspicion_def Let_def split: option.splits)

lemma suspicious_rate: "suspicious st f \<Longrightarrow> suspicious (fst (rate_limiter cfg now st ip g)) f"
  by (auto simp add: suspicious_def rate_limiter_def raise_suspicion_def Let_def split: option.splits)

lemma suspicious_gate:
  "suspicious st f \<Longrightarrow> verification_gate cfg st g p = Inr (st', b) \<Longrightarrow> suspicious st' f"
  by (auto simp add: suspicious_def verification_gate_def split: option.splits if_splits)

lemma suspicious_commit: "suspicious st f \<Longrightarrow> suspicious (commit_vote cfg now st g c ip b) f"
  by (auto simp add: suspicious_def commit_vote_def raise_suspicion_def Let_def split: option.splits)

lemma suspicious_obtain:
  "suspicious st f \<Longrightarrow> suspicious (fst (obtainSession cfg now fresh st g ip)) f"
proof -
  assume a: "suspicious st f"
  show ?thesis
  proof (cases "core_sessions st g")
    case None
    then show ?thesis using a
      by (auto simp add: obtainSession_def suspicious_def Let_def)
  next
    case (Some x)
    have "suspicious (if cs_expiry x \<le> now
             then st\<lparr>core_sessions := (core_sessions st)(g \<mapsto>
                    x\<lparr>cs_token := fresh, cs_expiry := now + token_ttl cfg\<rparr>)\<rparr>
             else st) f"
      using a Some by (auto simp add: suspicious_def)
    then show ?thesis using Some
      by (simp add: obtainSession_def Let_def suspicious_track)
  qed
qed

lemma suspicious_submit:
  "suspicious st f \<Longrightarrow> suspicious (fst (submitVote cfg now st g c ip token p)) f"
proof -
  assume a: "suspicious st f"
  obtain st1 limited where r: "rate_limiter cfg now st ip g = (st1, limited)"
    by (cases "rate_limiter cfg now st ip g")
  have s1: "suspicious st1 f"
    using suspicious_rate [OF a, of cfg now ip g] r by simp
  show ?thesis
  proof (cases "verification_gate cfg st1 g p")
    case (Inl e)
    then show ?thesis using a r s1 by (simp add: submitVote_def)
  next
    case (Inr q)
    obtain st2 b where q: "q = (st2, b)" by (cases q)
    have "suspicious st2 f" using suspicious_gate [OF s1] Inr q by simp
    then show ?thesis using a r s1 Inr q
      by (simp add: submitVote_def Let_def suspicious_commit)
  qed
qed

lemma suspicious_step: "suspicious st f \<Longrightarrow> suspicious (core_step cfg st op) f"
proof (cases op)
  case (Verify g p)
  assume "suspicious st f"
  then show ?thesis using Verify
    by (cases "verification_gate cfg st g p") (auto dest: suspicious_gate)
qed (simp_all add: suspicious_obtain suspicious_submit suspicious_track suspicious_rate)

lemma suspicious_run: "suspicious st f \<Longrightarrow> suspicious (core_run cfg st ops) f"
  unfolding core_run_def
  by (induction ops arbitrary: st) (simp_all add: suspicious_step)

section \<open>The vote ledger and its ceilings\<close>



text \<open>
  C2, as stated, fails: a submission for a fingerprint and contestant that are in the
  ledger, with a valid token, is answered with status 429 when the rate limiter
  trips, not with \<open>Duplicate\<close>.
\<close>

theorem rate_limited_duplicate_is_not_reported:
  "has_voted (run tag_hash empty_backend first_vote_requests) ''sha256:chromeid1'' ''Smith'' \<and>
   validate_token \<lparr>now_utc = 30, token_hex = [], too_many = always\<rparr>
     (run tag_hash empty_backend first_vote_requests) ''tok1'' ''sha256:chromeid1'' \<and>
   post_vote \<lparr>now_utc = 30, token_hex = [], too_many = always\<rparr>
     (run tag_hash empty_backend first_vote_requests)
     ''Smith'' ''sha256:chromeid1'' ''tok1'' ''9.9.9.9'' =
     (run tag_hash empty_backend first_vote_requests, Inl HTTP429)"
  by (simp add: backend_defs)

text \<open>
  C2, as the code has it: in every state reached from the empty store a fingerprint
  has at most one ledger row per contestant. A submission for a pair that is in the
  ledger never succeeds and leaves the whole store as it was (the ledger, the
  session's count and so every count computed from them); when its token is valid and
  the rate limiter lets it pass, its result is \<open>Duplicate\<close>.
\<close>

theorem duplicate_vote_rejected:
  "votes_for (run h empty_backend rs) f c \<le> 1 \<and>
   (has_voted s f c \<longrightarrow>
      fst (post_vote e s c f t ip) = s \<and> (\<exists>err. snd (post_vote e s c f t ip) = Inl err)) \<and>
   (has_voted s f c \<and> validate_token e s t f \<and> \<not> too_many e ip f \<longrightarrow>
      post_vote e s c f t ip = (s, Inl Duplicate))"
proof -
  have "\<forall>f c. votes_for empty_backend f c \<le> 1"
    by (simp add: votes_for_def empty_backend_def)
  then have "votes_for (run h empty_backend rs) f c \<le> 1"
    by (rule run_one_vote_per_pair)
  moreover have "has_voted s f c \<longrightarrow>
      fst (post_vote e s c f t ip) = s \<and> (\<exists>err. snd (post_vote e s c f t ip) = Inl err)"
    by (simp add: post_vote_def)
  moreover have "has_voted s f c \<and> validate_token e s t f \<and> \<not> too_many e ip f \<longrightarrow>
      post_vote e s c f t ip = (s, Inl Duplicate)"
    by (simp add: post_vote_def)
  ultimately show ?thesis by blast
qed

theorem duplicate_vote_rejected_witness:
  "votes_for (run tag_hash empty_backend first_vote_requests) ''sha256:chromeid1'' ''Smith'' = 1 \<and>
   has_voted (run tag_hash empty_backend first_vote_requests) ''sha256:chromeid1'' ''Smith'' \<and>
   validate_token \<lparr>now_utc = 20, token_hex = [], too_many = never\<rparr>
     (run tag_hash empty_backend first_vote_requests) ''tok1'' ''sha256:chromeid1'' \<and>
   post_vote \<lparr>now_utc = 20, token_hex = [], too_many = never\<rparr>
     (run tag_hash empty_backend first_vote_requests)
     ''Smith'' ''sha256:chromeid1'' ''tok1'' ''1.1.1.1'' =
   (run tag_hash empty_backend first_vote_requests, Inl Duplicate)"
proof -
  have a: "has_voted (run tag_hash empty_backend first_vote_requests) ''sha256:chromeid1'' ''Smith''"
    by (simp add: backend_defs)
  have b: "validate_token \<lparr>now_utc = 20, token_hex = [], too_many = never\<rparr>
     (run tag_hash empty_backend first_vote_requests) ''tok1'' ''sha256:chromeid1''"
    by (simp add: backend_defs)
  have c: "\<not> too_many \<lparr>now_utc = 20, token_hex = [], too_many = never\<rparr> ''1.1.1.1'' ''sha256:chromeid1''"
    by (simp add: never_def)
  have d: "votes_for (run tag_hash empty_backend first_vote_requests) ''sha256:chromeid1'' ''Smith'' = 1"
    by (simp add: backend_defs)
  show ?thesis
    using duplicate_vote_rejected [of tag_hash first_vote_requests "''sha256:chromeid1''" "''Smith''"
        "run tag_hash empty_backend first_vote_requests"
        "\<lparr>now_utc = 20, token_hex = [], too_many = never\<rparr>" "''tok1''" "''1.1.1.1''"] a b c d
    by blast
qed

section \<open>The fingerprint\<close>

text \<open>
  C3. \<^const>\<open>compute_fingerprint\<close> is the hash of the visitor id alone: two calls with the
  same visitor id give the same fingerprint, whatever the two local ids are. (The
  property is of the implementation's function; the reference pseudocode of the
  design, \<^const>\<open>get_token\<close> above, predates it and hashes both identifiers.)
\<close>

theorem compute_fingerprint_visitor_only:
  "compute_fingerprint h visitor_id local_id = h visitor_id \<and>
   (visitor_id = visitor_id' \<longrightarrow>
      compute_fingerprint h visitor_id local_id = compute_fingerprint h visitor_id' local_id')"
  by (simp add: compute_fingerprint_def)

theorem compute_fingerprint_visitor_only_witness:
  "compute_fingerprint tag_hash ''chrome'' ''id1'' = ''sha256:chrome'' \<and>
   compute_fingerprint tag_hash ''chrome'' ''id1'' = compute_fingerprint tag_hash ''chrome'' ''id2''"
  using compute_fingerprint_visitor_only [of tag_hash "''chrome''" "''id1''" "''chrome''" "''id2''"]
  by (auto simp add: tag_hash_def)

section \<open>The token endpoint\<close>

text \<open>
  C4, as stated, fails: a second \<^const>\<open>get_token\<close> one minute after the first, well
  before the first token expires, answers with another token.
\<close>

theorem get_token_rotates_before_expiry:
  "resp_token (snd (get_token tag_hash \<lparr>now_utc = 0, token_hex = ''tok1'', too_many = never\<rparr>
      empty_backend ''chrome'' ''id1'' ''1.1.1.1'' ''ua'')) = ''tok1'' \<and>
   60 < resp_expires_at (snd (get_token tag_hash \<lparr>now_utc = 0, token_hex = ''tok1'', too_many = never\<rparr>
      empty_backend ''chrome'' ''id1'' ''1.1.1.1'' ''ua'')) \<and>
   resp_token (snd (get_token tag_hash \<lparr>now_utc = 60, token_hex = ''tok2'', too_many = never\<rparr>
      (fst (get_token tag_hash \<lparr>now_utc = 0, token_hex = ''tok1'', too_many = never\<rparr>
         empty_backend ''chrome'' ''id1'' ''1.1.1.1'' ''ua''))
      ''chrome'' ''id1'' ''1.1.1.1'' ''ua'')) = ''tok2''"
  by (simp add: get_token_response)

text \<open>
  C4, as the code has it: every call of \<^const>\<open>get_token\<close> issues the token it has just
  drawn, with an expiry 15 minutes ahead, whether or not a stored token has expired;
  it leaves the ledger alone, and a second call for the same identifiers and IP
  answers with the same fingerprint, the same two vote counts and the same suspicion
  flag as the first.
\<close>

theorem get_token_always_issues:
  "resp_token (snd (get_token h e s v l ip ua)) = token_hex e \<and>
   resp_expires_at (snd (get_token h e s v l ip ua)) = now_utc e + 15 * 60 \<and>
   votes (fst (get_token h e s v l ip ua)) = votes s \<and>
   resp_fingerprint (snd (get_token h e' (fst (get_token h e s v l ip ua)) v l ip ua)) =
     resp_fingerprint (snd (get_token h e s v l ip ua)) \<and>
   resp_votes_used (snd (get_token h e' (fst (get_token h e s v l ip ua)) v l ip ua)) =
     resp_votes_used (snd (get_token h e s v l ip ua)) \<and>
   resp_votes_used_from_ip (snd (get_token h e' (fst (get_token h e s v l ip ua)) v l ip ua)) =
     resp_votes_used_from_ip (snd (get_token h e s v l ip ua)) \<and>
   flagged (fst (get_token h e' (fst (get_token h e s v l ip ua)) v l ip ua)) (h (v @ l)) =
     flagged (fst (get_token h e s v l ip ua)) (h (v @ l))"
proof -
  have used: "resp_votes_used (snd (get_token h e' (fst (get_token h e s v l ip ua)) v l ip ua)) =
     resp_votes_used (snd (get_token h e s v l ip ua))"
    by (simp add: get_token_def Let_def cache_set_def save_token_def create_session_def
        find_session_def split: option.splits prod.splits)
  have fl: "flagged (fst (get_token h e' (fst (get_token h e s v l ip ua)) v l ip ua)) (h (v @ l)) =
     flagged (fst (get_token h e s v l ip ua)) (h (v @ l))"
    by (simp add: flagged_def get_token_def Let_def cache_set_def save_token_def create_session_def
        find_session_def split: option.splits prod.splits)
  show ?thesis
    using used fl by (simp add: get_token_response votes_from_def)
qed

theorem get_token_always_issues_witness:
  "resp_token (snd (get_token tag_hash \<lparr>now_utc = 60, token_hex = ''tok2'', too_many = never\<rparr>
      (run tag_hash empty_backend first_vote_requests) ''chrome'' ''id1'' ''1.1.1.1'' ''ua'')) =
     ''tok2'' \<and>
   resp_expires_at (snd (get_token tag_hash \<lparr>now_utc = 60, token_hex = ''tok2'', too_many = never\<rparr>
      (run tag_hash empty_backend first_vote_requests) ''chrome'' ''id1'' ''1.1.1.1'' ''ua'')) =
     960"
  using get_token_always_issues [of tag_hash
      "\<lparr>now_utc = 60, token_hex = ''tok2'', too_many = never\<rparr>"
      "run tag_hash empty_backend first_vote_requests" "''chrome''" "''id1''" "''1.1.1.1''" "''ua''"]
  by simp

section \<open>IP changes and the suspicion flag\<close>

text \<open>
  C5, as stated, fails: at the second IP change of a fingerprint (one change logged,
  the default limit of 1) the flag is set and the request is refused with status 403,
  and the table of IP changes is left as it was: no record of the change 2.2.2.2 to
  3.3.3.3 is appended.
\<close>

theorem second_ip_change_appends_no_record:
  "ip_change_detection default_settings moved_session moved_logs ''fp1'' ''3.3.3.3'' =
     ((moved_session\<lparr>is_suspicious := True\<rparr>, moved_logs), Inl HTTP403)"
  by (simp add: ip_change_detection_def default_settings_def moved_session_def moved_logs_def
      truthy_def ip_changes_of_def)

text \<open>
  C5, as the code has it: on a touch whose inbound IP differs from the stored one,
  when the fingerprint has fewer logged changes than \<open>MAX_IP_CHANGES_ALLOWED\<close> exactly
  one record (old, new) is appended and the flag is left alone; otherwise the flag is
  set, the request is refused with status 403 and nothing is appended. So the flag is
  true afterwards exactly when it was true before or the logged changes plus this one
  exceed the limit; with the default limit of 1 the first change leaves the flag
  false and the second sets it.
\<close>

theorem ip_change_detection_cases:
  assumes "ip_address session = Some old" and "old \<noteq> []" and "old \<noteq> ip"
  shows
   "(ip_changes_of logs f < MAX_IP_CHANGES_ALLOWED cfg \<longrightarrow>
       ip_change_detection cfg session logs f ip =
         ((session, logs @ [\<lparr>log_fingerprint = f, old_ip = Some old, new_ip = ip\<rparr>]), Inr ())) \<and>
    (MAX_IP_CHANGES_ALLOWED cfg \<le> ip_changes_of logs f \<longrightarrow>
       ip_change_detection cfg session logs f ip =
         ((session\<lparr>is_suspicious := True\<rparr>, logs), Inl HTTP403)) \<and>
    (is_suspicious (fst (fst (ip_change_detection cfg session logs f ip))) \<longleftrightarrow>
       is_suspicious session \<or> MAX_IP_CHANGES_ALLOWED cfg < ip_changes_of logs f + 1) \<and>
    (ip_changes_of logs f = 0 \<and> \<not> is_suspicious session \<and> old \<noteq> ip' \<longrightarrow>
       \<not> is_suspicious (fst (fst (ip_change_detection default_settings session logs f ip))) \<and>
       ip_changes_of (snd (fst (ip_change_detection default_settings session logs f ip))) f = 1 \<and>
       is_suspicious
         (fst (fst (ip_change_detection default_settings
            (fst (fst (ip_change_detection default_settings session logs f ip)))
            (snd (fst (ip_change_detection default_settings session logs f ip))) f ip'))))"
  using assms
  by (simp add: ip_change_detection_def truthy_def Let_def ip_changes_of_def default_settings_def)

theorem ip_change_detection_cases_witness:
  "ip_change_detection default_settings
     (moved_session\<lparr>ip_address := Some ''1.1.1.1''\<rparr>) [] ''fp1'' ''2.2.2.2'' =
     ((moved_session\<lparr>ip_address := Some ''1.1.1.1''\<rparr>, moved_logs), Inr ()) \<and>
   is_suspicious (fst (fst (ip_change_detection default_settings
     (moved_session\<lparr>ip_address := Some ''1.1.1.1''\<rparr>) moved_logs ''fp1'' ''3.3.3.3'')))"
  using ip_change_detection_cases [of "moved_session\<lparr>ip_address := Some ''1.1.1.1''\<rparr>"
      "''1.1.1.1''" "''2.2.2.2''" "[]" "''fp1''" default_settings "''3.3.3.3''"]
    ip_change_detection_cases [of "moved_session\<lparr>ip_address := Some ''1.1.1.1''\<rparr>"
      "''1.1.1.1''" "''3.3.3.3''" moved_logs "''fp1''" default_settings "''3.3.3.3''"]
  by (simp add: moved_session_def moved_logs_def default_settings_def ip_changes_of_def)

text \<open>
  C6. The suspicion flag never goes back. In the code: a fingerprint whose session is
  flagged stays flagged through every sequence of token requests, vote submissions
  (rate-limited or not) and IP change detections, from any store, and the IP change
  detection never clears the flag of the session it is given. On the modelled core: a
  flagged fingerprint stays flagged through every sequence of \<open>obtainSession\<close>,
  \<open>submitVote\<close>, IP tracking, rate limiting and verification, from any state.
\<close>

theorem suspicion_flag_monotonic:
  "(flagged s f \<longrightarrow> flagged (run h s rs) f) \<and>
   (is_suspicious session \<longrightarrow>
      is_suspicious (fst (fst (ip_change_detection cfg session logs f' ip)))) \<and>
   (suspicious st g \<longrightarrow> suspicious (core_run ccfg st ops) g)"
proof -
  have "flagged s f \<Longrightarrow> flagged (run h s rs) f"
    unfolding run_def
    by (induction rs arbitrary: s) (simp_all add: handle_flagged)
  moreover have "is_suspicious session \<longrightarrow>
      is_suspicious (fst (fst (ip_change_detection cfg session logs f' ip)))"
    by (simp add: ip_change_detection_def Let_def)
  moreover have "suspicious st g \<longrightarrow> suspicious (core_run ccfg st ops) g"
    by (simp add: suspicious_run)
  ultimately show ?thesis by blast
qed

theorem suspicion_flag_monotonic_witness:
  "flagged flagged_backend ''sha256:chromeid1'' \<and>
   flagged (run tag_hash flagged_backend flagged_requests) ''sha256:chromeid1'' \<and>
   votes_for (run tag_hash flagged_backend flagged_requests) ''sha256:chromeid1'' ''Smith'' = 1 \<and>
   suspicious (core_run demo_config empty_core roaming_ops) ''fp1'' \<and>
   suspicious (core_run demo_config (core_run demo_config empty_core roaming_ops) flagged_ops)
     ''fp1'' \<and>
   device_votes (core_run demo_config (core_run demo_config empty_core roaming_ops) flagged_ops)
     ''fp1'' = 1"
proof -
  have a: "flagged flagged_backend ''sha256:chromeid1''"
    by (simp add: flagged_def flagged_backend_def empty_backend_def)
  have b: "suspicious (core_run demo_config empty_core roaming_ops) ''fp1''"
    by (simp add: core_eval)
  have c: "votes_for (run tag_hash flagged_backend flagged_requests) ''sha256:chromeid1''
             ''Smith'' = 1"
    by (simp add: backend_defs flagged_backend_def flagged_requests_def detect_ip_change_def
        ip_change_detection_def truthy_def ip_changes_of_def default_settings_def)
  have d: "core_ledger
             (core_run demo_config (core_run demo_config empty_core roaming_ops) flagged_ops) =
           [\<lparr>cv_fingerprint = ''fp1'', cv_contestant = ''smith'', cv_ip = ''3.3.3.3'',
             cv_verified = True, cv_time = 1020\<rparr>]"
    by (simp add: core_eval)
  show ?thesis
    using a b c
      suspicion_flag_monotonic [where s = flagged_backend and f = "''sha256:chromeid1''"
        and h = tag_hash and rs = flagged_requests
        and st = "core_run demo_config empty_core roaming_ops" and g = "''fp1''"
        and ccfg = demo_config and ops = flagged_ops]
    by (simp add: d device_votes_def)
qed

section \<open>Token validation and the order of the checks\<close>

text \<open>
  C7, as stated, fails: after a second token request the session's current token is
  the second one, and the first, no longer the stored session token, still passes the
  check until it expires.
\<close>

theorem superseded_token_still_validates:
  "session_token (run tag_hash empty_backend two_token_requests) ''sha256:chromeid1'' =
     Some ''tok2'' \<and>
   validate_token \<lparr>now_utc = 120, token_hex = [], too_many = never\<rparr>
     (run tag_hash empty_backend two_token_requests) ''tok1'' ''sha256:chromeid1''"
  by (simp add: backend_defs session_token_def)

text \<open>
  C7, as the code has it: the token check of \<^const>\<open>post_vote\<close> holds exactly when a
  record is stored for the token (a live cache entry, or else a row of the table
  \<^verbatim>\<open>tokens\<close>), the record has not expired at the time of the check and the fingerprint
  it is bound to is the request's. A token that is in neither store fails, and a
  failed check makes \<^const>\<open>post_vote\<close> raise and leave the store alone. A token that
  \<^const>\<open>get_token\<close> has issued passes, through every later sequence of requests that
  does not draw the same token again (so also after it has been superseded), exactly
  before its expiry and for the fingerprint it was issued to.
\<close>

theorem validate_token_fails_closed:
  "(validate_token e s token f \<longleftrightarrow>
      (\<exists>t. ((\<exists>dies. cache s (''tok:'' @ token) = Some (t, dies) \<and> now_utc e < dies) \<or>
            ((\<forall>t' dies. cache s (''tok:'' @ token) = Some (t', dies) \<longrightarrow> dies \<le> now_utc e) \<and>
             map_of (tokens s) token = Some t)) \<and>
           now_utc e < exp t \<and> fp t = f)) \<and>
   (cache s (''tok:'' @ token) = None \<and> map_of (tokens s) token = None \<longrightarrow>
      \<not> validate_token e s token f) \<and>
   (\<not> validate_token e s token f \<longrightarrow>
      post_vote e s c f token ip = (s, Inl InvalidOrExpiredToken)) \<and>
   ((\<forall>r \<in> set rs. \<not> draws r (token_hex e0)) \<longrightarrow>
      (validate_token e (run h (fst (get_token h e0 s v l ip0 ua)) rs) (token_hex e0) f \<longleftrightarrow>
         now_utc e < now_utc e0 + 15 * 60 \<and> f = h (v @ l)))"
proof -
  have iff: "validate_token e s token f \<longleftrightarrow>
      (\<exists>t. ((\<exists>dies. cache s (''tok:'' @ token) = Some (t, dies) \<and> now_utc e < dies) \<or>
            ((\<forall>t' dies. cache s (''tok:'' @ token) = Some (t', dies) \<longrightarrow> dies \<le> now_utc e) \<and>
             map_of (tokens s) token = Some t)) \<and>
           now_utc e < exp t \<and> fp t = f)"
    by (auto simp: validate_token_def lookup_token_def cache_get_def find_token_def
        split: option.splits if_splits)
  have missing: "cache s (''tok:'' @ token) = None \<and> map_of (tokens s) token = None \<longrightarrow>
      \<not> validate_token e s token f"
    by (simp add: validate_token_def lookup_token_def cache_get_def find_token_def)
  have raises: "\<not> validate_token e s token f \<longrightarrow>
      post_vote e s c f token ip = (s, Inl InvalidOrExpiredToken)"
    by (simp add: post_vote_def)
  have issued: "(\<forall>r \<in> set rs. \<not> draws r (token_hex e0)) \<longrightarrow>
      (validate_token e (run h (fst (get_token h e0 s v l ip0 ua)) rs) (token_hex e0) f \<longleftrightarrow>
         now_utc e < now_utc e0 + 15 * 60 \<and> f = h (v @ l))"
  proof
    assume "\<forall>r \<in> set rs. \<not> draws r (token_hex e0)"
    then have "lookup_token e (run h (fst (get_token h e0 s v l ip0 ua)) rs) (token_hex e0) =
        Some \<lparr>fp = h (v @ l), exp = now_utc e0 + 900\<rparr>"
      by (simp add: lookup_run lookup_issued)
    then show "validate_token e (run h (fst (get_token h e0 s v l ip0 ua)) rs) (token_hex e0) f
        \<longleftrightarrow> now_utc e < now_utc e0 + 15 * 60 \<and> f = h (v @ l)"
      by (auto simp add: validate_token_def)
  qed
  show ?thesis using iff missing raises issued by blast
qed

theorem validate_token_fails_closed_witness:
  "validate_token \<lparr>now_utc = 899, token_hex = [], too_many = never\<rparr>
     (run tag_hash empty_backend two_token_requests) ''tok1'' ''sha256:chromeid1'' \<and>
   \<not> validate_token \<lparr>now_utc = 900, token_hex = [], too_many = never\<rparr>
     (run tag_hash empty_backend two_token_requests) ''tok1'' ''sha256:chromeid1'' \<and>
   \<not> validate_token \<lparr>now_utc = 120, token_hex = [], too_many = never\<rparr>
     (run tag_hash empty_backend two_token_requests) ''tok1'' ''sha256:braveid2'' \<and>
   \<not> validate_token \<lparr>now_utc = 120, token_hex = [], too_many = never\<rparr>
     (run tag_hash empty_backend two_token_requests) ''tok7'' ''sha256:chromeid1'' \<and>
   post_vote \<lparr>now_utc = 900, token_hex = [], too_many = never\<rparr>
     (run tag_hash empty_backend two_token_requests)
     ''Jones'' ''sha256:chromeid1'' ''tok1'' ''1.1.1.1'' =
     (run tag_hash empty_backend two_token_requests, Inl InvalidOrExpiredToken)"
proof -
  have r: "run tag_hash empty_backend two_token_requests =
     run tag_hash
       (fst (get_token tag_hash \<lparr>now_utc = 0, token_hex = ''tok1'', too_many = never\<rparr>
          empty_backend ''chrome'' ''id1'' ''1.1.1.1'' ''ua''))
       [TokenRequest \<lparr>now_utc = 60, token_hex = ''tok2'', too_many = never\<rparr>
          ''chrome'' ''id1'' ''1.1.1.1'' ''ua'']"
    by (simp add: run_def two_token_requests_def)
  have n: "\<forall>r \<in> set [TokenRequest \<lparr>now_utc = 60, token_hex = ''tok2'', too_many = never\<rparr>
          ''chrome'' ''id1'' ''1.1.1.1'' ''ua'']. \<not> draws r ''tok1''"
    by simp
  have m: "cache (run tag_hash empty_backend two_token_requests) (''tok:'' @ ''tok7'') = None"
          "map_of (tokens (run tag_hash empty_backend two_token_requests)) ''tok7'' = None"
    by (simp_all add: backend_defs)
  have i: "\<And>e f. validate_token e (run tag_hash empty_backend two_token_requests) ''tok1'' f \<longleftrightarrow>
      now_utc e < 900 \<and> f = ''sha256:chromeid1''"
    using n validate_token_fails_closed
      [where rs = "[TokenRequest \<lparr>now_utc = 60, token_hex = ''tok2'', too_many = never\<rparr>
          ''chrome'' ''id1'' ''1.1.1.1'' ''ua'']"
        and ?e0.0 = "\<lparr>now_utc = 0, token_hex = ''tok1'', too_many = never\<rparr>"
        and h = tag_hash and s = empty_backend and v = "''chrome''" and l = "''id1''"
        and ?ip0.0 = "''1.1.1.1''" and ua = "''ua''"]
    unfolding r by (simp add: tag_hash_def)
  have k: "\<not> validate_token \<lparr>now_utc = 120, token_hex = [], too_many = never\<rparr>
     (run tag_hash empty_backend two_token_requests) ''tok7'' ''sha256:chromeid1''"
    using m validate_token_fails_closed
      [where e = "\<lparr>now_utc = 120, token_hex = [], too_many = never\<rparr>"
        and s = "run tag_hash empty_backend two_token_requests" and token = "''tok7''"
        and f = "''sha256:chromeid1''"]
    by blast
  have p: "post_vote \<lparr>now_utc = 900, token_hex = [], too_many = never\<rparr>
     (run tag_hash empty_backend two_token_requests)
     ''Jones'' ''sha256:chromeid1'' ''tok1'' ''1.1.1.1'' =
     (run tag_hash empty_backend two_token_requests, Inl InvalidOrExpiredToken)"
    using i validate_token_fails_closed
      [where e = "\<lparr>now_utc = 900, token_hex = [], too_many = never\<rparr>"
        and s = "run tag_hash empty_backend two_token_requests" and token = "''tok1''"
        and f = "''sha256:chromeid1''" and c = "''Jones''" and ip = "''1.1.1.1''"]
    by simp
  show ?thesis using i k p by simp
qed


section \<open>The frontend\<close>

text \<open>
  C9. For counts that are not negative, the number of remaining votes that the
  frontend displays, \<open>maxVotes - max(deviceVotes, ipVotes)\<close>, is the formula of the
  specification, \<open>min(deviceCap - deviceVotes, ipCap - ipVotes)\<close>, with the three caps at 3.
\<close>

theorem displayed_votes_remaining_is_spec_formula:
  assumes "0 \<le> sd_votes_used tokenData" and "0 \<le> sd_votes_used_from_ip tokenData"
  shows "displayed_votes_remaining tokenData =
         spec_votes_remaining 3 3 (sd_votes_used tokenData) (sd_votes_used_from_ip tokenData)"
  by (simp add: displayed_votes_remaining_def spec_votes_remaining_def or_zero_def Let_def)

theorem displayed_votes_remaining_is_spec_formula_witness:
  "displayed_votes_remaining stale_session = 1 \<and>
   spec_votes_remaining 3 3 1 2 = 1"
  using displayed_votes_remaining_is_spec_formula [of stale_session]
  by (simp add: stale_session_def spec_votes_remaining_def)

text \<open>
  C10, as stated, fails: \<^const>\<open>ensureValidToken\<close> can return a session token within 30
  seconds of its expiry. The stored session expires in 20 seconds, so a token is
  fetched; the fetched one also expires in 20 seconds, and it is returned with no
  check of its expiry.
\<close>

theorem ensureValidToken_returns_token_near_expiry:
  "snd (ensureValidToken late_browser (Some stale_session) ''chrome'' ''id1'') =
     Inr \<lparr>sd_token = Some ''tok9'', sd_fingerprint = Some ''fp1'',
          sd_expires_at = Some ''2025-11-05T12:00:20'', sd_votes_used = 1,
          sd_votes_used_from_ip = 0, sd_is_suspicious = False\<rparr> \<and>
   get_time late_browser ''2025-11-05T12:00:20'' = Some 43220000 \<and>
   43220000 - date_now late_browser = 20000 \<and>
   isTokenExpired late_browser (Some ''2025-11-05T12:00:20'')"
  by (simp add: ensureValidToken_def initializeToken_def isTokenExpired_def setSession_def
      late_browser_def late_fetchToken_def noon_get_time_def stale_session_def
      or_zero_def or_false_def Let_def)

text \<open>
  C10, as the code has it: with a stored session, \<^const>\<open>ensureValidToken\<close> fetches a
  token when the stored expiry is missing or empty or is read as at most 30 seconds
  ahead of the clock, and returns the stored session, leaving it stored, otherwise
  (an expiry more than 30 seconds ahead, or one that cannot be read). What a
  successful fetch answers is returned as it is, with no check of its expiry, and
  replaces the stored session unless the write to the storage fails; a failed fetch
  throws and leaves the stored session.
\<close>

theorem ensureValidToken_refresh_buffer:
  "((sd_expires_at session = None \<or> sd_expires_at session = Some [] \<or>
      (\<exists>x t. sd_expires_at session = Some x \<and> get_time b x = Some t \<and>
             t - date_now b \<le> 30000)) \<longrightarrow>
      ensureValidToken b (Some session) visitorId localId =
        initializeToken b (Some session) visitorId localId) \<and>
   (\<not> (sd_expires_at session = None \<or> sd_expires_at session = Some [] \<or>
      (\<exists>x t. sd_expires_at session = Some x \<and> get_time b x = Some t \<and>
             t - date_now b \<le> 30000)) \<longrightarrow>
      ensureValidToken b (Some session) visitorId localId = (Some session, Inr session)) \<and>
   (\<forall>tokenData. fetchToken b visitorId localId = Inr tokenData \<longrightarrow>
      (\<exists>fresh. initializeToken b (Some session) visitorId localId =
                 (if setItem_throws b then Some session else Some fresh, Inr fresh) \<and>
         sd_token fresh = td_token tokenData \<and>
         sd_expires_at fresh = td_expires_at tokenData)) \<and>
   (\<forall>err. fetchToken b visitorId localId = Inl err \<longrightarrow>
      initializeToken b (Some session) visitorId localId = (Some session, Inl err))"
  by (auto simp: ensureValidToken_def isTokenExpired_def initializeToken_def setSession_def
      Let_def split: option.splits)

theorem ensureValidToken_refresh_buffer_witness:
  "get_time noon_browser ''2025-11-05T12:00:20'' = Some 43220000 \<and>
   43220000 - date_now noon_browser \<le> 30000 \<and>
   ensureValidToken noon_browser (Some stale_session) ''chrome'' ''id1'' =
     (Some \<lparr>sd_token = Some ''tok9'', sd_fingerprint = Some ''fp1'',
            sd_expires_at = Some ''2025-11-05T12:15:00'', sd_votes_used = 1,
            sd_votes_used_from_ip = 0, sd_is_suspicious = False\<rparr>,
      Inr \<lparr>sd_token = Some ''tok9'', sd_fingerprint = Some ''fp1'',
           sd_expires_at = Some ''2025-11-05T12:15:00'', sd_votes_used = 1,
           sd_votes_used_from_ip = 0, sd_is_suspicious = False\<rparr>) \<and>
   ensureValidToken (noon_browser\<lparr>setItem_throws := True\<rparr>) (Some stale_session)
       ''chrome'' ''id1'' =
     (Some stale_session,
      Inr \<lparr>sd_token = Some ''tok9'', sd_fingerprint = Some ''fp1'',
           sd_expires_at = Some ''2025-11-05T12:15:00'', sd_votes_used = 1,
           sd_votes_used_from_ip = 0, sd_is_suspicious = False\<rparr>) \<and>
   ensureValidToken noon_browser
     (Some (stale_session\<lparr>sd_expires_at := Some ''2025-11-05T12:10:00''\<rparr>)) ''chrome'' ''id1'' =
     (Some (stale_session\<lparr>sd_expires_at := Some ''2025-11-05T12:10:00''\<rparr>),
      Inr (stale_session\<lparr>sd_expires_at := Some ''2025-11-05T12:10:00''\<rparr>))"
  using ensureValidToken_refresh_buffer [of stale_session noon_browser "''chrome''" "''id1''"]
    ensureValidToken_refresh_buffer
      [of stale_session "noon_browser\<lparr>setItem_throws := True\<rparr>" "''chrome''" "''id1''"]
    ensureValidToken_refresh_buffer
      [of "stale_session\<lparr>sd_expires_at := Some ''2025-11-05T12:10:00''\<rparr>" noon_browser
          "''chrome''" "''id1''"]
  by (simp add: stale_session_def noon_browser_def noon_get_time_def noon_fetchToken_def
      initializeToken_def setSession_def or_zero_def or_false_def Let_def)

end
